theory Spec2Isabelle
  imports Main
begin

section \<open>Strings\<close>

text \<open>
  Go strings are byte sequences, here \<^typ>\<open>string\<close>. \<open>strings.Split(s, sep)\<close> is used by
  the source with the one-byte separator \<open>","\<close> only, so the separator is a \<^typ>\<open>char\<close>.
  It returns one segment more than there are separators in \<open>s\<close>; in particular a slice of
  length 1 for a string without separator, the empty string included. The second branch of
  the \<open>case\<close> is there for totality; the result of the recursive call is never empty.
\<close>

fun strings_Split :: "string \<Rightarrow> char \<Rightarrow> string list" where
  "strings_Split [] sep = [[]]"
| "strings_Split (c # cs) sep =
     (if c = sep then [] # strings_Split cs sep
      else (case strings_Split cs sep of
              w # ws \<Rightarrow> (c # w) # ws
            | [] \<Rightarrow> [[c]]))"

text \<open>\<open>strings.Join(elems, sep)\<close>: the elements in order, \<open>sep\<close> between neighbours.\<close>

fun strings_Join :: "string list \<Rightarrow> string \<Rightarrow> string" where
  "strings_Join [] sep = []"
| "strings_Join [x] sep = x"
| "strings_Join (x # y # ys) sep = x @ sep @ strings_Join (y # ys) sep"

section \<open>Requests, replies and the process state\<close>

text \<open>
  \<open>url.Values\<close> is \<open>map[string][]string\<close>. \<open>Get\<close> returns the first value of the key, and
  the empty string when the key is absent or its slice empty.
\<close>

type_synonym Values = "string \<rightharpoonup> string list"

definition Values_Get :: "Values \<Rightarrow> string \<Rightarrow> string" where
  "Values_Get v k = (case v k of None \<Rightarrow> [] | Some [] \<Rightarrow> [] | Some (x # xs) \<Rightarrow> x)"

definition Values_Set :: "Values \<Rightarrow> string \<Rightarrow> string \<Rightarrow> Values" where
  "Values_Set v k x = v(k \<mapsto> [x])"

definition Values_Add :: "Values \<Rightarrow> string \<Rightarrow> string \<Rightarrow> Values" where
  "Values_Add v k x = v(k \<mapsto> (case v k of None \<Rightarrow> [] | Some xs \<Rightarrow> xs) @ [x])"

definition Values_Del :: "Values \<Rightarrow> string \<Rightarrow> Values" where
  "Values_Del v k = v(k := None)"

text \<open>
  The query string of a URL (\<open>URL.RawQuery\<close>) is represented by the \<open>url.Values\<close> that
  \<open>URL.Query()\<close> reads from it. \<open>Values.Encode\<close> writes nothing for a key whose slice is
  empty, so the query string assigned by \<open>req.URL.RawQuery = q.Encode()\<close> denotes \<open>q\<close>
  without such keys. (\<open>Encode\<close> sorts by key; the order of different keys is not part of
  \<open>url.Values\<close>.)
\<close>

definition Values_Encode :: "Values \<Rightarrow> Values" where
  "Values_Encode v = (\<lambda>k. case v k of None \<Rightarrow> None | Some [] \<Rightarrow> None | Some (x # xs) \<Rightarrow> Some (x # xs))"

text \<open>\<open>copyValues(dst, src)\<close> of net/http: every slice of \<open>src\<close> is appended to that of \<open>dst\<close>.\<close>

definition copyValues :: "Values \<Rightarrow> Values \<Rightarrow> Values" where
  "copyValues dst src =
     (\<lambda>k. case src k of
             None \<Rightarrow> dst k
           | Some vs \<Rightarrow> Some ((case dst k of None \<Rightarrow> [] | Some ds \<Rightarrow> ds) @ vs))"

text \<open>
  The part of \<open>http.Request\<close> that the handlers read or write. \<open>PostForm\<close> and
  \<open>MultipartForm\<close> stand for the form values of a urlencoded and of a multipart body
  (empty when the request has no such body). \<open>Context\<close> is the value stored under
  \<open>keyLabel\<close> in the request's context: \<open>None\<close> when the key is not set, a nil slice is \<open>[]\<close>.
\<close>

record request =
  Method :: string
  URL_Path :: string
  URL_Query :: Values
  Header :: Values
  PostForm :: Values
  MultipartForm :: Values
  Context :: "string list option"

text \<open>
  \<open>req.Form\<close> after \<open>ParseMultipartForm\<close>: the values of a urlencoded body (read for POST,
  PUT and PATCH only), then those of the query string, then those of a multipart body.
  \<open>req.FormValue(key)\<close> is the first value of \<open>key\<close> in it, or the empty string.
\<close>

definition Form :: "request \<Rightarrow> Values" where
  "Form req =
     copyValues
       (copyValues
          (if Method req = ''POST'' \<or> Method req = ''PUT'' \<or> Method req = ''PATCH''
           then PostForm req else Map.empty)
          (URL_Query req))
       (MultipartForm req)"

definition FormValue :: "request \<Rightarrow> string \<Rightarrow> string" where
  "FormValue req key = Values_Get (Form req) key"

text \<open>
  What a handler has written to its \<open>http.ResponseWriter\<close>: \<open>http.Error(w, msg, code)\<close>,
  a redirect of the multiplexer, or the upstream's answer copied by the reverse proxy
  (status and body).
\<close>

datatype reply =
    HttpError string nat
  | HttpRedirect string nat
  | Proxied nat string

text \<open>
  The state a request is served in: the reply written so far (\<open>None\<close>: nothing written),
  the requests handed to the reverse proxy, which sends them upstream, and the lines
  printed on standard output.
\<close>

record world =
  written :: "reply option"
  upstream :: "request list"
  stdout :: "string list"

text \<open>
  The status the client receives. net/http answers 200 for a handler that returns without
  having written anything.
\<close>

fun statusCode :: "reply option \<Rightarrow> nat" where
  "statusCode None = 200"
| "statusCode (Some (HttpError msg code)) = code"
| "statusCode (Some (HttpRedirect url code)) = code"
| "statusCode (Some (Proxied code body)) = code"

definition http_Error :: "world \<Rightarrow> string \<Rightarrow> nat \<Rightarrow> world" where
  "http_Error w msg code = w\<lparr>written := Some (HttpError msg code)\<rparr>"

definition http_NotFound :: "world \<Rightarrow> world" where
  "http_NotFound w = http_Error w ''404 page not found'' 404"

definition Println :: "world \<Rightarrow> string \<Rightarrow> world" where
  "Println w line = w\<lparr>stdout := stdout w @ [line]\<rparr>"

section \<open>The tenant values in the context, and the matcher\<close>

text \<open>A panic of the source, one constructor for each \<open>panic\<close> statement.\<close>

datatype panic =
    CantFindValue
  | EmptyValue
  | InvalidSize nat

text \<open>\<open>labels.MatchType\<close> and the exported fields of \<open>labels.Matcher\<close> (Prometheus).\<close>

datatype MatchType = MatchEqual | MatchNotEqual | MatchRegexp | MatchNotRegexp

record Matcher =
  Name :: string
  Type :: MatchType
  Value :: string

definition withLabelValue :: "string list option \<Rightarrow> string list \<Rightarrow> string list option" where
  "withLabelValue ctx lvalues = Some lvalues"

definition mustLabelValue :: "string list option \<Rightarrow> panic + string list" where
  "mustLabelValue ctx =
     (case ctx of
        None \<Rightarrow> Inl CantFindValue
      | Some lvalues \<Rightarrow> if length lvalues = 0 then Inl EmptyValue else Inr lvalues)"

text \<open>
  \<open>createLabelMatcher\<close> prints one line and returns the matcher; the state is threaded for
  the line printed.
\<close>

definition createLabelMatcher :: "world \<Rightarrow> string list option \<Rightarrow> string \<Rightarrow> panic + (world \<times> Matcher)" where
  "createLabelMatcher w ctx label =
     (case mustLabelValue ctx of
        Inl p \<Rightarrow> Inl p
      | Inr lvalues \<Rightarrow>
          (let w' = Println w (''label '' @ label @ '' should be: '' @ strings_Join lvalues '','')
           in if length lvalues = 1 then
                Inr (w', \<lparr>Name = label, Type = MatchEqual, Value = lvalues ! 0\<rparr>)
              else if length lvalues > 1 then
                Inr (w', \<lparr>Name = label, Type = MatchRegexp,
                          Value = ''^(?:'' @ strings_Join lvalues ''|'' @ '')$''\<rparr>)
              else Inl (InvalidSize (length lvalues))))"

section \<open>Collaborators\<close>

text \<open>The configuration held by \<open>routes\<close>: the tenant label and where it is read from.\<close>

record routes =
  label :: string
  labelLocation :: string

text \<open>
  What the handlers call outside \<open>routes.go\<close>, taken as parameters; \<open>'e\<close> is the type of
  parsed expressions.
  \<^item> \<open>fmt_q\<close>: the verb \<open>%q\<close> of \<open>fmt\<close> on a string (a double-quoted, escaped Go literal);
  \<^item> \<open>CanonicalMIMEHeaderKey\<close>: the canonical form \<open>Header.Get\<close> looks a name up by;
  \<^item> \<open>ParseExpr\<close>, \<open>Expr_String\<close>: the PromQL parser and printer; \<open>Inl\<close> is the error;
  \<^item> \<open>EnforceNode\<close>: \<open>NewEnforcer(matchers...).EnforceNode(expr)\<close>, which rewrites the
    expression in place or returns an error;
  \<^item> \<open>proxyReply\<close>: status and body that the reverse proxy writes back for a request it
    forwarded (the upstream's answer, after \<open>ModifyResponse\<close>);
  \<^item> \<open>silences\<close>, \<open>deleteSilence\<close>: the two handlers of \<open>routes\<close> defined in other files.
\<close>

record 'e deps =
  fmt_q :: "string \<Rightarrow> string"
  CanonicalMIMEHeaderKey :: "string \<Rightarrow> string"
  ParseExpr :: "string \<Rightarrow> string + 'e"
  EnforceNode :: "Matcher list \<Rightarrow> 'e \<Rightarrow> string + 'e"
  Expr_String :: "'e \<Rightarrow> string"
  proxyReply :: "request \<Rightarrow> nat \<times> string"
  silences :: "routes \<Rightarrow> world \<Rightarrow> request \<Rightarrow> panic + world"
  deleteSilence :: "routes \<Rightarrow> world \<Rightarrow> request \<Rightarrow> panic + world"

definition Header_Get :: "'e deps \<Rightarrow> Values \<Rightarrow> string \<Rightarrow> string" where
  "Header_Get d h key = Values_Get h (CanonicalMIMEHeaderKey d key)"

text \<open>\<open>MatchType.String()\<close> and \<open>Matcher.String()\<close>, the latter \<open>Sprintf("%s%s%q", ...)\<close>.\<close>

fun MatchType_String :: "MatchType \<Rightarrow> string" where
  "MatchType_String MatchEqual = ''=''"
| "MatchType_String MatchNotEqual = ''!=''"
| "MatchType_String MatchRegexp = ''=~''"
| "MatchType_String MatchNotRegexp = ''!~''"

definition Matcher_String :: "'e deps \<Rightarrow> Matcher \<Rightarrow> string" where
  "Matcher_String d m = Name m @ MatchType_String (Type m) @ fmt_q d (Value m)"

text \<open>
  \<open>r.handler.ServeHTTP(w, req)\<close>: the reverse proxy sends \<open>req\<close> upstream and copies the
  answer to the client.
\<close>

definition handler_ServeHTTP :: "'e deps \<Rightarrow> world \<Rightarrow> request \<Rightarrow> world" where
  "handler_ServeHTTP d w req =
     w\<lparr>written := Some (Proxied (fst (proxyReply d req)) (snd (proxyReply d req))),
       upstream := upstream w @ [req]\<rparr>"

section \<open>The handlers\<close>

text \<open>A handler returns the new state, or the panic that ended it.\<close>

type_synonym handlerFunc = "world \<Rightarrow> request \<Rightarrow> panic + world"

fun enforceMethods :: "handlerFunc \<Rightarrow> string list \<Rightarrow> handlerFunc" where
  "enforceMethods h [] w req = Inr (http_NotFound w)"
| "enforceMethods h (m # methods) w req =
     (if m = Method req then h w req else enforceMethods h methods w req)"

definition noop :: "'e deps \<Rightarrow> routes \<Rightarrow> handlerFunc" where
  "noop d r w req = Inr (handler_ServeHTTP d w req)"

definition query :: "'e deps \<Rightarrow> routes \<Rightarrow> handlerFunc" where
  "query d r w req =
     (case ParseExpr d (FormValue req ''query'') of
        Inl err \<Rightarrow> Inr w
      | Inr expr \<Rightarrow>
          (case createLabelMatcher w (Context req) (label r) of
             Inl p \<Rightarrow> Inl p
           | Inr (w', matcher) \<Rightarrow>
               (case EnforceNode d [matcher] expr of
                  Inl err \<Rightarrow> Inr w'
                | Inr expr' \<Rightarrow>
                    (let q = Values_Set (URL_Query req) ''query'' (Expr_String d expr')
                     in Inr (handler_ServeHTTP d w' (req\<lparr>URL_Query := Values_Encode q\<rparr>))))))"

text \<open>
  The loop of \<open>series\<close> over the \<open>match[]\<close> values: \<open>None\<close> when the body returned from
  the handler, else the query values \<open>q\<close> after the loop.
\<close>

fun series_loop ::
  "'e deps \<Rightarrow> routes \<Rightarrow> request \<Rightarrow> world \<Rightarrow> Values \<Rightarrow> string list \<Rightarrow> panic + (world \<times> Values option)" where
  "series_loop d r req w q [] = Inr (w, Some q)"
| "series_loop d r req w q (m # matches) =
     (case ParseExpr d m of
        Inl err \<Rightarrow> Inr (w, None)
      | Inr expr \<Rightarrow>
          (case createLabelMatcher w (Context req) (label r) of
             Inl p \<Rightarrow> Inl p
           | Inr (w', matcher) \<Rightarrow>
               (case EnforceNode d [matcher] expr of
                  Inl err \<Rightarrow> Inr (w', None)
                | Inr expr' \<Rightarrow>
                    series_loop d r req
                      (Println w' (''new query: '' @ Expr_String d expr'))
                      (Values_Add q ''match[]'' (Expr_String d expr')) matches)))"

definition series :: "'e deps \<Rightarrow> routes \<Rightarrow> handlerFunc" where
  "series d r w req =
     (let matches = Form req ''match[]'';
          q = Values_Del (URL_Query req) ''match[]''
      in case (case matches of
                 None \<Rightarrow> Inr (w, Some q)
               | Some ms \<Rightarrow> series_loop d r req w q ms) of
           Inl p \<Rightarrow> Inl p
         | Inr (w', None) \<Rightarrow> Inr w'
         | Inr (w', Some q') \<Rightarrow>
             Inr (handler_ServeHTTP d w' (req\<lparr>URL_Query := Values_Encode q'\<rparr>)))"

definition federate :: "'e deps \<Rightarrow> routes \<Rightarrow> handlerFunc" where
  "federate d r w req =
     (case createLabelMatcher w (Context req) (label r) of
        Inl p \<Rightarrow> Inl p
      | Inr (w', matcher) \<Rightarrow>
          (let q = Values_Set (URL_Query req) ''match[]'' (''{'' @ Matcher_String d matcher @ ''}'')
           in Inr (handler_ServeHTTP d w' (req\<lparr>URL_Query := Values_Encode q\<rparr>))))"

section \<open>The routing table\<close>

text \<open>
  The registrations of \<open>NewRoutes\<close>, in their order: pattern, handler and the methods given
  to \<open>enforceMethods\<close>.
\<close>

datatype endpoint = Federate | Query | Series | Noop | Silences | DeleteSilence

definition routeTable :: "(string \<times> endpoint \<times> string list) list" where
  "routeTable =
     [(''/federate'', Federate, [''GET'']),
      (''/api/v1/query'', Query, [''GET'', ''POST'']),
      (''/api/v1/query_range'', Query, [''GET'', ''POST'']),
      (''/api/v1/series'', Series, [''GET'', ''POST'']),
      (''/api/v1/labels'', Noop, [''GET'']),
      (''/api/v1/label/__name__/values'', Noop, [''GET'']),
      (''/api/v1/alerts'', Noop, [''GET'']),
      (''/api/v1/rules'', Noop, [''GET'']),
      (''/api/v2/silences'', Silences, [''GET'', ''POST'']),
      (''/api/v2/silences/'', Silences, [''GET'', ''POST'']),
      (''/api/v2/silence/'', DeleteSilence, [''DELETE''])]"

fun handlerOf :: "'e deps \<Rightarrow> routes \<Rightarrow> endpoint \<Rightarrow> handlerFunc" where
  "handlerOf d r Federate = federate d r"
| "handlerOf d r Query = query d r"
| "handlerOf d r Series = series d r"
| "handlerOf d r Noop = noop d r"
| "handlerOf d r Silences = silences d r"
| "handlerOf d r DeleteSilence = deleteSilence d r"

section \<open>The multiplexer and \<open>ServeHTTP\<close>\<close>

text \<open>
  \<open>http.ServeMux\<close> as the table uses it (no host patterns). \<open>cleanPath\<close> makes a path
  rooted and applies \<open>path.Clean\<close>: empty and \<open>.\<close> elements go, \<open>..\<close> removes the element
  before it (none at the root), and a trailing slash is kept.
\<close>

definition clean_elem :: "string list \<Rightarrow> string \<Rightarrow> string list" where
  "clean_elem st e =
     (if e = [] \<or> e = ''.'' then st else if e = ''..'' then butlast st else st @ [e])"

definition cleanPath :: "string \<Rightarrow> string" where
  "cleanPath p0 =
     (if p0 = [] then ''/''
      else (let p = (if hd p0 \<noteq> CHR ''/'' then ''/'' @ p0 else p0);
                np = ''/'' @ strings_Join (foldl clean_elem [] (strings_Split p CHR ''/'')) ''/''
            in if last p = CHR ''/'' \<and> np \<noteq> ''/'' then np @ ''/'' else np))"

text \<open>
  \<open>ServeMux.match\<close>: the pattern equal to the path, else the longest pattern with a
  trailing slash that is a prefix of the path.
\<close>

definition mux_es :: "(string \<times> endpoint \<times> string list) list" where
  "mux_es =
     rev (sort_key (\<lambda>e. length (fst e))
            (filter (\<lambda>e. fst e \<noteq> [] \<and> last (fst e) = CHR ''/'') routeTable))"

definition mux_match :: "string \<Rightarrow> (endpoint \<times> string list) option" where
  "mux_match path =
     (case map_of routeTable path of
        Some h \<Rightarrow> Some h
      | None \<Rightarrow> map_option snd (find (\<lambda>e. take (length (fst e)) path = fst e) mux_es))"

text \<open>
  \<open>ServeMux.Handler\<close>: a path that is not registered while the path with a slash appended
  is, and a path that is not clean (except for CONNECT), are answered by a redirect (301);
  a path without match by \<open>NotFoundHandler\<close>.
\<close>

datatype muxTarget =
    Handle endpoint "string list"
  | RedirectTo string
  | NotFoundHandler

definition shouldRedirect :: "string \<Rightarrow> bool" where
  "shouldRedirect path =
     (map_of routeTable path = None \<and> path \<noteq> [] \<and>
      map_of routeTable (path @ ''/'') \<noteq> None \<and> last path \<noteq> CHR ''/'')"

definition mux_handler :: "string \<Rightarrow> muxTarget" where
  "mux_handler path =
     (case mux_match path of
        None \<Rightarrow> NotFoundHandler
      | Some (ep, methods) \<Rightarrow> Handle ep methods)"

definition mux_Handler :: "string \<Rightarrow> string \<Rightarrow> muxTarget" where
  "mux_Handler method urlPath =
     (if method = ''CONNECT'' then
        (if shouldRedirect urlPath then RedirectTo (urlPath @ ''/'') else mux_handler urlPath)
      else
        (let path = cleanPath urlPath
         in if shouldRedirect path then RedirectTo (path @ ''/'')
            else if path \<noteq> urlPath then RedirectTo path
            else mux_handler urlPath))"

definition mux_ServeHTTP :: "'e deps \<Rightarrow> routes \<Rightarrow> handlerFunc" where
  "mux_ServeHTTP d r w req =
     (case mux_Handler (Method req) (URL_Path req) of
        Handle ep methods \<Rightarrow> enforceMethods (handlerOf d r ep) methods w req
      | RedirectTo url \<Rightarrow> Inr (w\<lparr>written := Some (HttpRedirect url 301)\<rparr>)
      | NotFoundHandler \<Rightarrow> Inr (http_NotFound w))"

text \<open>
  \<open>routes.ServeHTTP\<close>. \<open>tenantRequest\<close> is the request as the multiplexer receives it: the
  tenant values in its context, the label deleted from its query string.
\<close>

definition lvalue_of :: "'e deps \<Rightarrow> routes \<Rightarrow> request \<Rightarrow> string" where
  "lvalue_of d r req =
     (if labelLocation r = ''header'' then Header_Get d (Header req) (label r)
      else Values_Get (URL_Query req) (label r))"

definition tenantRequest :: "routes \<Rightarrow> request \<Rightarrow> string list \<Rightarrow> request" where
  "tenantRequest r req lvalues =
     (let req' = req\<lparr>Context := withLabelValue (Context req) lvalues\<rparr>;
          q = Values_Del (URL_Query req') (label r)
      in req'\<lparr>URL_Query := Values_Encode q\<rparr>)"

definition ServeHTTP :: "'e deps \<Rightarrow> routes \<Rightarrow> handlerFunc" where
  "ServeHTTP d r w req =
     (let lvalue = lvalue_of d r req
      in if lvalue = [] then
           Inr (http_Error w
                  (''Bad request. The '' @ fmt_q d (label r) @ '' query parameter must be provided.'')
                  400)
         else
           (let lvalues = strings_Split lvalue CHR '',''
            in mux_ServeHTTP d r w (tenantRequest r req lvalues)))"

section \<open>The regular expressions of the matcher\<close>

text \<open>
  The value of a \<open>MatchRegexp\<close> matcher is read by Go's \<open>regexp\<close> package (RE2 syntax).
  Only one fragment is modelled: the patterns \<open>^(?:b1|...|bn)$\<close> whose branches contain
  no metacharacter. Such a pattern accepts exactly the strings \<open>b1\<close>, ..., \<open>bn\<close>.
  \<open>literal_alternation\<close> returns the branches, and \<open>None\<close> for a pattern outside the
  fragment; \<open>MatchString\<close> is \<open>None\<close> there.
\<close>

definition metachar :: "char \<Rightarrow> bool" where
  "metachar c = (c \<in> set ''.+*?()|[]{}^$'' \<or> c = CHR 0x5C)"

definition literal_alternation :: "string \<Rightarrow> string list option" where
  "literal_alternation p =
     (if 6 \<le> length p \<and> take 4 p = ''^(?:'' \<and> drop (length p - 2) p = '')$'' then
        (let branches = strings_Split (take (length p - 6) (drop 4 p)) CHR ''|''
         in if list_ex metachar (concat branches) then None else Some branches)
      else None)"

definition MatchString :: "string \<Rightarrow> string \<Rightarrow> bool option" where
  "MatchString p v = map_option (\<lambda>branches. v \<in> set branches) (literal_alternation p)"

section \<open>An instance for evaluation\<close>

text \<open>
  A small instance of the collaborators, on which the handlers can be run: an expression is
  its text, the parser accepts every non-empty text without a parenthesis, enforcement
  refuses a text that has a matcher list already and appends the matchers otherwise, the
  upstream answers 200, and the two silence handlers do nothing.
\<close>

definition demo_quote :: "string \<Rightarrow> string" where
  "demo_quote s = CHR 0x22 # s @ [CHR 0x22]"

definition demo_enforce :: "Matcher list \<Rightarrow> string \<Rightarrow> string + string" where
  "demo_enforce ms e =
     (if CHR ''{'' \<in> set e then Inl ''conflicting matcher''
      else Inr (e @ ''{'' @
                strings_Join (map (\<lambda>m. Name m @ MatchType_String (Type m) @ demo_quote (Value m)) ms) '',''
                @ ''}''))"

definition demo_deps :: "string deps" where
  "demo_deps =
     \<lparr>fmt_q = demo_quote,
      CanonicalMIMEHeaderKey = (\<lambda>k. if k = ''tenant'' then ''Tenant'' else k),
      ParseExpr = (\<lambda>s. if s = [] \<or> CHR ''('' \<in> set s then Inl ''parse error'' else Inr s),
      EnforceNode = demo_enforce,
      Expr_String = (\<lambda>e. e),
      proxyReply = (\<lambda>req. (200, ''ok'')),
      silences = (\<lambda>r w req. Inr w),
      deleteSilence = (\<lambda>r w req. Inr w)\<rparr>"

text \<open>The selector \<open>up{tenant="b"}\<close>, which names another tenant.\<close>

definition conflicting_query :: string where
  "conflicting_query = ''up{tenant='' @ demo_quote ''b'' @ ''}''"

definition demo_world :: world where
  "demo_world = \<lparr>written = None, upstream = [], stdout = []\<rparr>"

definition param_routes :: routes where
  "param_routes = \<lparr>label = ''tenant'', labelLocation = ''param''\<rparr>"

definition header_routes :: routes where
  "header_routes = \<lparr>label = ''tenant'', labelLocation = ''header''\<rparr>"

definition demo_request :: "string \<Rightarrow> string \<Rightarrow> (string \<times> string list) list \<Rightarrow> (string \<times> string list) list \<Rightarrow> request" where
  "demo_request m p q h =
     \<lparr>Method = m, URL_Path = p, URL_Query = map_of q, Header = map_of h,
      PostForm = Map.empty, MultipartForm = Map.empty, Context = None\<rparr>"

section \<open>The frame of a handler\<close>

text \<open>
  What a handler of this file does to the requests sent upstream when it returns: it
  forwards nothing, or exactly the request it was given with a new query string, in which
  no key other than \<open>query\<close> and \<open>match[]\<close> appears that the old one did not have.
\<close>

definition forwards :: "world \<Rightarrow> request \<Rightarrow> world \<Rightarrow> bool" where
  "forwards w req w' =
     (upstream w' = upstream w \<or>
      (\<exists>q'. upstream w' = upstream w @ [req\<lparr>URL_Query := q'\<rparr>] \<and>
            (\<forall>k. k \<noteq> ''query'' \<and> k \<noteq> ''match[]'' \<and> URL_Query req k = None \<longrightarrow> q' k = None)))"

section \<open>Splitting and joining\<close>

lemma strings_Split_not_Nil: "strings_Split s c \<noteq> []"
  by (induction s) (auto split: list.splits)

lemma length_strings_Split: "length (strings_Split s c) = Suc (count_list s c)"
proof (induction s)
  case Nil
  show ?case by simp
next
  case (Cons a s)
  obtain w ws where "strings_Split s c = w # ws"
    using strings_Split_not_Nil [of s c] by (cases "strings_Split s c") auto
  with Cons show ?case by auto
qed

lemma strings_Join_Split: "strings_Join (strings_Split s c) [c] = s"
proof (induction s)
  case Nil
  show ?case by simp
next
  case (Cons a s)
  obtain w ws where ws: "strings_Split s c = w # ws"
    using strings_Split_not_Nil [of s c] by (cases "strings_Split s c") auto
  show ?case
  proof (cases "a = c")
    case True
    with Cons ws show ?thesis by simp
  next
    case False
    with Cons ws show ?thesis by (cases ws) auto
  qed
qed

lemma strings_Split_segments: "seg \<in> set (strings_Split s c) \<Longrightarrow> c \<notin> set seg"
proof (induction s arbitrary: seg)
  case Nil
  then show ?case by simp
next
  case (Cons a s)
  obtain w ws where ws: "strings_Split s c = w # ws"
    using strings_Split_not_Nil [of s c] by (cases "strings_Split s c") auto
  from Cons.IH [of w] ws have w: "c \<notin> set w" by simp
  from Cons.IH ws have rest: "\<And>x. x \<in> set ws \<Longrightarrow> c \<notin> set x" by simp
  from Cons.prems ws w rest show ?case by (auto split: if_splits)
qed

section \<open>The matcher\<close>

lemma createLabelMatcher_Some:
  "lvalues \<noteq> [] \<Longrightarrow>
   createLabelMatcher w (Some lvalues) l =
     Inr (Println w (''label '' @ l @ '' should be: '' @ strings_Join lvalues '',''),
          if length lvalues = 1 then \<lparr>Name = l, Type = MatchEqual, Value = lvalues ! 0\<rparr>
          else \<lparr>Name = l, Type = MatchRegexp,
                Value = ''^(?:'' @ strings_Join lvalues ''|'' @ '')$''\<rparr>)"
  by (cases lvalues) (auto simp: createLabelMatcher_def mustLabelValue_def Let_def)

text \<open>
  Claim C4. For a non-empty list of tenant values \<open>createLabelMatcher\<close> returns a matcher
  on the configured label: an equality matcher with the value when the list has exactly one
  value, and otherwise (more than one value) a regular-expression matcher whose pattern is
  \<open>^(?:\<close>, the values in their order separated by \<open>|\<close>, and \<open>)$\<close>.
\<close>

theorem createLabelMatcher_one_or_many:
  assumes "lvalues \<noteq> []"
  shows "\<exists>w'. createLabelMatcher w (Some lvalues) l =
           Inr (w', if length lvalues = 1
                    then \<lparr>Name = l, Type = MatchEqual, Value = hd lvalues\<rparr>
                    else \<lparr>Name = l, Type = MatchRegexp,
                          Value = ''^(?:'' @ strings_Join lvalues ''|'' @ '')$''\<rparr>)"
  using assms by (cases lvalues) (simp_all add: createLabelMatcher_Some)

theorem createLabelMatcher_one_or_many_witness:
  "[''a''] \<noteq> [] \<and>
   (\<exists>w'. createLabelMatcher demo_world (Some [''a'']) ''tenant'' =
           Inr (w', \<lparr>Name = ''tenant'', Type = MatchEqual, Value = ''a''\<rparr>)) \<and>
   (\<exists>w'. createLabelMatcher demo_world (Some [''a'', ''b'']) ''tenant'' =
           Inr (w', \<lparr>Name = ''tenant'', Type = MatchRegexp, Value = ''^(?:a|b)$''\<rparr>))"
  using createLabelMatcher_one_or_many [of "[''a'']" demo_world "''tenant''"]
    createLabelMatcher_one_or_many [of "[''a'', ''b'']" demo_world "''tenant''"]
  by simp

text \<open>
  Claim C5. For a list of more than one value the pattern is exactly \<open>^(?:\<close>, the values
  joined by \<open>|\<close>, \<open>)$\<close>: the values are inserted as they are, nothing is escaped. So the
  values \<open>a|b\<close> and \<open>c\<close> give the pattern \<open>^(?:a|b|c)$\<close>, which accepts \<open>a\<close>, a label
  value that is not one of the tenant values.
\<close>

theorem createLabelMatcher_pattern_verbatim:
  "(1 < length lvalues \<longrightarrow>
      (\<exists>w'. createLabelMatcher w (Some lvalues) l =
              Inr (w', \<lparr>Name = l, Type = MatchRegexp,
                        Value = ''^(?:'' @ strings_Join lvalues ''|'' @ '')$''\<rparr>))) \<and>
   (\<exists>w'. createLabelMatcher w (Some [''a|b'', ''c'']) l =
           Inr (w', \<lparr>Name = l, Type = MatchRegexp, Value = ''^(?:a|b|c)$''\<rparr>)) \<and>
   MatchString ''^(?:a|b|c)$'' ''a'' = Some True \<and> ''a'' \<notin> set [''a|b'', ''c'']"
proof -
  have "1 < length lvalues \<Longrightarrow> lvalues \<noteq> []" by auto
  then have general: "1 < length lvalues \<longrightarrow>
      (\<exists>w'. createLabelMatcher w (Some lvalues) l =
              Inr (w', \<lparr>Name = l, Type = MatchRegexp,
                        Value = ''^(?:'' @ strings_Join lvalues ''|'' @ '')$''\<rparr>))"
    by (auto simp: createLabelMatcher_Some)
  have inst: "\<exists>w'. createLabelMatcher w (Some [''a|b'', ''c'']) l =
           Inr (w', \<lparr>Name = l, Type = MatchRegexp, Value = ''^(?:a|b|c)$''\<rparr>)"
    by (simp add: createLabelMatcher_Some)
  have acc: "MatchString ''^(?:a|b|c)$'' ''a'' = Some True"
    by (simp add: MatchString_def literal_alternation_def metachar_def)
  from general inst acc show ?thesis by simp
qed

theorem createLabelMatcher_pattern_verbatim_witness:
  "1 < length [''a|b'', ''c''] \<and>
   (\<exists>w'. createLabelMatcher demo_world (Some [''a|b'', ''c'']) ''tenant'' =
           Inr (w', \<lparr>Name = ''tenant'', Type = MatchRegexp, Value = ''^(?:a|b|c)$''\<rparr>)) \<and>
   MatchString ''^(?:a|b|c)$'' ''a'' = Some True \<and> ''a'' \<notin> set [''a|b'', ''c'']"
  using createLabelMatcher_pattern_verbatim [of "[''a|b'', ''c'']" demo_world "''tenant''"]
  by simp

section \<open>Tenant extraction\<close>

lemma ServeHTTP_tenant:
  "lvalue_of d r req \<noteq> [] \<Longrightarrow>
   ServeHTTP d r w req =
     mux_ServeHTTP d r w (tenantRequest r req (strings_Split (lvalue_of d r req) CHR '',''))"
  by (simp add: ServeHTTP_def Let_def)

lemma tenantRequest_simps:
  "Context (tenantRequest r req lvalues) = Some lvalues"
  "Method (tenantRequest r req lvalues) = Method req"
  "URL_Path (tenantRequest r req lvalues) = URL_Path req"
  "Header (tenantRequest r req lvalues) = Header req"
  "PostForm (tenantRequest r req lvalues) = PostForm req"
  "MultipartForm (tenantRequest r req lvalues) = MultipartForm req"
  "URL_Query (tenantRequest r req lvalues) = Values_Encode (Values_Del (URL_Query req) (label r))"
  by (simp_all add: tenantRequest_def withLabelValue_def Let_def)

text \<open>
  Claim C8. A non-empty raw tenant value is split at every comma, and the list of segments
  is what the request's context holds when the multiplexer receives it. No segment is
  dropped: there is one segment more than there are commas, no segment contains a comma,
  and joining the segments with commas gives the raw value back. So \<open>a,,b\<close> gives the three values \<open>a\<close>, the empty
  string and \<open>b\<close>.
\<close>

theorem ServeHTTP_split_keeps_empty_segments:
  assumes "lvalue_of d r req = lvalue" and "lvalue \<noteq> []"
  shows "ServeHTTP d r w req =
           mux_ServeHTTP d r w (tenantRequest r req (strings_Split lvalue CHR '','')) \<and>
         Context (tenantRequest r req (strings_Split lvalue CHR '','')) =
           Some (strings_Split lvalue CHR '','') \<and>
         length (strings_Split lvalue CHR '','') = Suc (count_list lvalue CHR '','') \<and>
         strings_Join (strings_Split lvalue CHR '','') '','' = lvalue \<and>
         (\<forall>seg \<in> set (strings_Split lvalue CHR '',''). CHR '','' \<notin> set seg) \<and>
         strings_Split ''a,,b'' CHR '','' = [''a'', '''', ''b'']"
  using assms ServeHTTP_tenant [of d r req w] strings_Split_segments [of _ lvalue "CHR '',''"]
  by (simp add: tenantRequest_simps length_strings_Split strings_Join_Split)

theorem ServeHTTP_split_keeps_empty_segments_witness:
  "lvalue_of demo_deps param_routes (demo_request ''GET'' ''/api/v1/labels'' [(''tenant'', [''a,,b''])] []) = ''a,,b'' \<and>
   ''a,,b'' \<noteq> [] \<and>
   Context (tenantRequest param_routes (demo_request ''GET'' ''/api/v1/labels'' [(''tenant'', [''a,,b''])] [])
              (strings_Split ''a,,b'' CHR '','')) = Some [''a'', '''', ''b''] \<and>
   length (strings_Split ''a,,b'' CHR '','') = 3"
proof -
  have h: "lvalue_of demo_deps param_routes (demo_request ''GET'' ''/api/v1/labels'' [(''tenant'', [''a,,b''])] []) = ''a,,b''"
    by (simp add: lvalue_of_def param_routes_def demo_request_def Values_Get_def)
  have n: "''a,,b'' \<noteq> []" by simp
  from ServeHTTP_split_keeps_empty_segments [OF h n, of demo_world] h show ?thesis
    by simp
qed

section \<open>Handlers\<close>

lemma createLabelMatcher_frame:
  "createLabelMatcher w ctx l = Inr (w', m) \<Longrightarrow>
   upstream w' = upstream w \<and> written w' = written w"
  by (auto simp: createLabelMatcher_def Println_def Let_def split: sum.splits if_splits)

lemma createLabelMatcher_total:
  "ctx = Some lvalues \<Longrightarrow> lvalues \<noteq> [] \<Longrightarrow> \<exists>w' m. createLabelMatcher w ctx l = Inr (w', m)"
  by (simp add: createLabelMatcher_Some)

lemma enforceMethods_eq:
  "enforceMethods h methods w req =
     (if Method req \<in> set methods then h w req else Inr (http_NotFound w))"
  by (induction methods) auto

lemma series_loop_frame:
  "series_loop d r req w q ms = Inr (w', res) \<Longrightarrow>
   upstream w' = upstream w \<and> written w' = written w \<and>
   (case res of None \<Rightarrow> True | Some q' \<Rightarrow> k \<noteq> ''match[]'' \<longrightarrow> q' k = q k)"
proof (induction ms arbitrary: w q)
  case Nil
  then show ?case by auto
next
  case (Cons a ms)
  show ?case
  proof (cases "ParseExpr d a")
    case (Inl err)
    with Cons.prems show ?thesis by auto
  next
    case (Inr expr)
    note parsed = this
    show ?thesis
    proof (cases "createLabelMatcher w (Context req) (label r)")
      case (Inl p)
      with Cons.prems parsed show ?thesis by simp
    next
      case (Inr wm)
      obtain w1 m where wm: "wm = (w1, m)" by (cases wm)
      from Inr wm have fr: "upstream w1 = upstream w \<and> written w1 = written w"
        using createLabelMatcher_frame by blast
      show ?thesis
      proof (cases "EnforceNode d [m] expr")
        case (Inl err)
        with Cons.prems parsed Inr wm fr show ?thesis by auto
      next
        case (Inr expr')
        with Cons.prems parsed \<open>createLabelMatcher w (Context req) (label r) = Inr wm\<close> wm
        have "series_loop d r req (Println w1 (''new query: '' @ Expr_String d expr'))
                (Values_Add q ''match[]'' (Expr_String d expr')) ms = Inr (w', res)"
          by simp
        from Cons.IH [OF this] fr show ?thesis
          by (auto simp: Println_def Values_Add_def split: option.splits)
      qed
    qed
  qed
qed

lemma series_loop_total:
  "Context req = Some lvalues \<Longrightarrow> lvalues \<noteq> [] \<Longrightarrow>
   \<exists>w' res. series_loop d r req w q ms = Inr (w', res)"
proof (induction ms arbitrary: w q)
  case Nil
  then show ?case by simp
next
  case (Cons a ms)
  from Cons.prems obtain w1 m where
    cm: "createLabelMatcher w (Context req) (label r) = Inr (w1, m)"
    using createLabelMatcher_total by blast
  show ?case
  proof (cases "ParseExpr d a")
    case (Inl err)
    then show ?thesis by simp
  next
    case (Inr expr)
    show ?thesis
    proof (cases "EnforceNode d [m] expr")
      case (Inl err)
      with Inr cm show ?thesis by simp
    next
      case (Inr expr')
      with \<open>ParseExpr d a = Inr expr\<close> cm Cons.IH [OF Cons.prems] show ?thesis by simp
    qed
  qed
qed

lemma noop_forwards: "noop d r w req = Inr w' \<Longrightarrow> forwards w req w'"
  unfolding noop_def forwards_def handler_ServeHTTP_def
  by (auto intro: exI [of _ "URL_Query req"])

lemma federate_forwards: "federate d r w req = Inr w' \<Longrightarrow> forwards w req w'"
  unfolding federate_def forwards_def handler_ServeHTTP_def
  by (auto simp: Let_def Values_Encode_def Values_Set_def dest!: createLabelMatcher_frame
      split: sum.splits prod.splits)

lemma query_forwards: "query d r w req = Inr w' \<Longrightarrow> forwards w req w'"
  unfolding query_def forwards_def handler_ServeHTTP_def
  by (auto simp: Let_def Values_Encode_def Values_Set_def dest!: createLabelMatcher_frame
      split: sum.splits prod.splits)

lemma series_forwards:
  assumes "series d r w req = Inr w'"
  shows "forwards w req w'"
proof (cases "Form req ''match[]''")
  case None
  with assms show ?thesis
    unfolding series_def forwards_def handler_ServeHTTP_def
    by (auto simp: Let_def Values_Encode_def Values_Del_def)
next
  case (Some ms)
  show ?thesis
  proof (cases "series_loop d r req w (Values_Del (URL_Query req) ''match[]'') ms")
    case (Inl p)
    with assms Some show ?thesis by (simp add: series_def)
  next
    case (Inr wr)
    obtain w1 res where wr: "wr = (w1, res)" by (cases wr)
    show ?thesis
    proof (cases res)
      case None
      with assms Some Inr wr series_loop_frame [of d r req w _ ms w1 res]
      show ?thesis by (auto simp: series_def forwards_def)
    next
      case (Some q')
      have "\<And>k. k \<noteq> ''match[]'' \<Longrightarrow> q' k = Values_Del (URL_Query req) ''match[]'' k"
        using series_loop_frame [of d r req w _ ms w1 res k for k] Inr wr Some by auto
      then have keep: "\<And>k. k \<noteq> ''match[]'' \<Longrightarrow> URL_Query req k = None \<Longrightarrow> Values_Encode q' k = None"
        by (simp add: Values_Encode_def Values_Del_def)
      have fr: "upstream w1 = upstream w"
        using series_loop_frame [of d r req w _ ms w1 res] Inr wr by auto
      from assms \<open>Form req ''match[]'' = Some ms\<close> Inr wr Some
      have "w' = handler_ServeHTTP d w1 (req\<lparr>URL_Query := Values_Encode q'\<rparr>)"
        by (simp add: series_def)
      with fr keep show ?thesis
        unfolding forwards_def handler_ServeHTTP_def by auto
    qed
  qed
qed

lemma handlerOf_forwards:
  "ep \<noteq> Silences \<Longrightarrow> ep \<noteq> DeleteSilence \<Longrightarrow> handlerOf d r ep w req = Inr w' \<Longrightarrow>
   forwards w req w'"
  by (cases ep) (auto dest: noop_forwards federate_forwards query_forwards series_forwards)

lemma handlerOf_total:
  assumes "ep \<noteq> Silences" and "ep \<noteq> DeleteSilence"
    and "Context req = Some lvalues" and "lvalues \<noteq> []"
  shows "\<exists>w'. handlerOf d r ep w req = Inr w'"
proof (cases ep)
  case Federate
  with assms createLabelMatcher_total [of "Context req" lvalues w "label r"]
  show ?thesis by (auto simp: federate_def Let_def)
next
  case Query
  with assms createLabelMatcher_total [of "Context req" lvalues w "label r"]
  show ?thesis by (auto simp: query_def Let_def split: sum.splits)
next
  case Series
  with assms series_loop_total [of req lvalues d r w "Values_Del (URL_Query req) ''match[]''"]
  show ?thesis
    apply (simp add: series_def Let_def split: option.splits sum.splits prod.splits)
    by (metis Inl_Inr_False)
next
  case Noop
  then show ?thesis by (simp add: noop_def)
qed (use assms in auto)

section \<open>Routing\<close>

lemma mux_Handler_federate: "mux_Handler m ''/federate'' = Handle Federate [''GET'']"
  by (simp add: mux_Handler_def cleanPath_def clean_elem_def shouldRedirect_def routeTable_def
      mux_handler_def mux_match_def)

lemma mux_Handler_query: "mux_Handler m ''/api/v1/query'' = Handle Query [''GET'', ''POST'']"
  by (simp add: mux_Handler_def cleanPath_def clean_elem_def shouldRedirect_def routeTable_def
      mux_handler_def mux_match_def)

lemma mux_Handler_query_range:
  "mux_Handler m ''/api/v1/query_range'' = Handle Query [''GET'', ''POST'']"
  by (simp add: mux_Handler_def cleanPath_def clean_elem_def shouldRedirect_def routeTable_def
      mux_handler_def mux_match_def)


lemma mux_Handler_labels: "mux_Handler m ''/api/v1/labels'' = Handle Noop [''GET'']"
  by (simp add: mux_Handler_def cleanPath_def clean_elem_def shouldRedirect_def routeTable_def
      mux_handler_def mux_match_def)

lemma mux_ServeHTTP_Handle:
  "mux_Handler (Method req) (URL_Path req) = Handle ep methods \<Longrightarrow>
   mux_ServeHTTP d r w req =
     (if Method req \<in> set methods then handlerOf d r ep w req else Inr (http_NotFound w))"
  by (simp add: mux_ServeHTTP_def enforceMethods_eq)




text \<open>
  Claim C3. When the tenant value is absent from its carrier (the header or the query
  parameter named by the label, as configured) or its first value is empty, \<open>ServeHTTP\<close>
  answers 400 with a message that names the label, and does nothing else: nothing is
  forwarded upstream, nothing is printed, no handler runs.
\<close>

theorem ServeHTTP_missing_tenant:
  assumes "carrier = (if labelLocation r = ''header''
                      then Header req (CanonicalMIMEHeaderKey d (label r))
                      else URL_Query req (label r))"
    and "carrier = None \<or> carrier = Some [] \<or> (\<exists>vs. carrier = Some ([] # vs))"
  shows "\<exists>w'. ServeHTTP d r w req = Inr w' \<and>
           written w' = Some (HttpError (''Bad request. The '' @ fmt_q d (label r) @
                                         '' query parameter must be provided.'') 400) \<and>
           statusCode (written w') = 400 \<and>
           upstream w' = upstream w \<and> stdout w' = stdout w"
proof -
  from assms have "lvalue_of d r req = []"
    by (auto simp: lvalue_of_def Header_Get_def Values_Get_def)
  then show ?thesis
    by (simp add: ServeHTTP_def http_Error_def)
qed

theorem ServeHTTP_missing_tenant_witness:
  "(\<exists>w'. ServeHTTP demo_deps param_routes demo_world
            (demo_request ''GET'' ''/api/v1/query'' [(''query'', [''up''])] []) = Inr w' \<and>
          written w' = Some (HttpError (''Bad request. The '' @ demo_quote ''tenant'' @
                                        '' query parameter must be provided.'') 400) \<and>
          statusCode (written w') = 400 \<and> upstream w' = [] \<and> stdout w' = []) \<and>
   (\<exists>w'. ServeHTTP demo_deps header_routes demo_world
            (demo_request ''GET'' ''/api/v1/query'' [(''query'', [''up''])] [(''Tenant'', [''''])]) = Inr w' \<and>
          statusCode (written w') = 400 \<and> upstream w' = [])"
proof -
  let ?absent = "demo_request ''GET'' ''/api/v1/query'' [(''query'', [''up''])] []"
  let ?empty = "demo_request ''GET'' ''/api/v1/query'' [(''query'', [''up''])] [(''Tenant'', [''''])]"
  have a1: "None = (if labelLocation param_routes = ''header''
                    then Header ?absent (CanonicalMIMEHeaderKey demo_deps (label param_routes))
                    else URL_Query ?absent (label param_routes))"
    by (simp add: param_routes_def demo_request_def)
  have a2: "(None :: string list option) = None \<or> (None :: string list option) = Some [] \<or>
            (\<exists>vs. (None :: string list option) = Some ([] # vs))"
    by simp
  have e1: "Some [[]] = (if labelLocation header_routes = ''header''
                    then Header ?empty (CanonicalMIMEHeaderKey demo_deps (label header_routes))
                    else URL_Query ?empty (label header_routes))"
    by (simp add: header_routes_def demo_request_def demo_deps_def)
  have e2: "Some [[]] = None \<or> Some [[]] = Some [] \<or> (\<exists>vs. Some [[]] = Some ([] # vs :: string list))"
    by simp
  have up: "upstream demo_world = []" "stdout demo_world = []"
    by (simp_all add: demo_world_def)
  have q: "fmt_q demo_deps (label param_routes) = demo_quote ''tenant''"
    by (simp add: demo_deps_def param_routes_def)
  from ServeHTTP_missing_tenant [OF a1 a2, of demo_world]
    ServeHTTP_missing_tenant [OF e1 e2, of demo_world] up q
  show ?thesis by auto
qed



section \<open>The tenant context in the handlers\<close>

lemma createLabelMatcher_no_InvalidSize: "createLabelMatcher w ctx l \<noteq> Inl (InvalidSize n)"
proof (cases ctx)
  case None
  then show ?thesis by (simp add: createLabelMatcher_def mustLabelValue_def)
next
  case (Some lvalues)
  then show ?thesis
    by (cases lvalues) (simp_all add: createLabelMatcher_def mustLabelValue_def Let_def)
qed

lemma mux_ServeHTTP_total:
  assumes "\<forall>ms. mux_Handler (Method req) (URL_Path req) \<noteq> Handle Silences ms"
    and "\<forall>ms. mux_Handler (Method req) (URL_Path req) \<noteq> Handle DeleteSilence ms"
    and "Context req = Some lvalues" and "lvalues \<noteq> []"
  shows "\<exists>w'. mux_ServeHTTP d r w req = Inr w'"
proof (cases "mux_Handler (Method req) (URL_Path req)")
  case (Handle ep ms)
  with assms have "ep \<noteq> Silences" "ep \<noteq> DeleteSilence" by auto
  from handlerOf_total [OF this assms(3,4), of d r w] Handle show ?thesis
    by (simp add: mux_ServeHTTP_def enforceMethods_eq)
next
  case (RedirectTo u)
  then show ?thesis by (simp add: mux_ServeHTTP_def)
next
  case NotFoundHandler
  then show ?thesis by (simp add: mux_ServeHTTP_def)
qed

text \<open>
  Claim C7. When the raw tenant value is not empty, the request that \<open>ServeHTTP\<close> hands to
  the multiplexer carries in its context the list of the split values, which is not empty.
  On that request \<open>mustLabelValue\<close> and \<open>createLabelMatcher\<close> return a value, and so do the
  handlers \<open>federate\<close>, \<open>query\<close>, \<open>series\<close> and \<open>noop\<close>; a request that is not
  dispatched to one of the two silence handlers (which are not in this file) is served
  without panic. Conversely \<open>mustLabelValue\<close> and \<open>createLabelMatcher\<close> panic on a context
  without the value and on an empty list, and so does a handler that is given one; the
  third panic of \<open>createLabelMatcher\<close> (invalid size) is never reached.
\<close>

theorem tenant_context_never_panics:
  assumes "lvalue_of d r req = lvalue" and "lvalue \<noteq> []"
    and "req' = tenantRequest r req (strings_Split lvalue CHR '','')"
  shows "ServeHTTP d r w req = mux_ServeHTTP d r w req' \<and>
         Context req' = Some (strings_Split lvalue CHR '','') \<and>
         strings_Split lvalue CHR '','' \<noteq> [] \<and>
         mustLabelValue (Context req') = Inr (strings_Split lvalue CHR '','') \<and>
         (\<exists>w' m. createLabelMatcher w1 (Context req') (label r) = Inr (w', m)) \<and>
         (\<exists>w'. federate d r w1 req' = Inr w') \<and>
         (\<exists>w'. query d r w1 req' = Inr w') \<and>
         (\<exists>w'. series d r w1 req' = Inr w') \<and>
         (\<exists>w'. noop d r w1 req' = Inr w') \<and>
         ((\<forall>ms. mux_Handler (Method req) (URL_Path req) \<noteq> Handle Silences ms) \<and>
          (\<forall>ms. mux_Handler (Method req) (URL_Path req) \<noteq> Handle DeleteSilence ms) \<longrightarrow>
            (\<exists>w'. ServeHTTP d r w req = Inr w')) \<and>
         mustLabelValue None = Inl CantFindValue \<and>
         mustLabelValue (Some []) = Inl EmptyValue \<and>
         createLabelMatcher w1 None l = Inl CantFindValue \<and>
         createLabelMatcher w1 (Some []) l = Inl EmptyValue \<and>
         federate d r w1 (req'\<lparr>Context := None\<rparr>) = Inl CantFindValue \<and>
         federate d r w1 (req'\<lparr>Context := Some []\<rparr>) = Inl EmptyValue \<and>
         createLabelMatcher w1 ctx l \<noteq> Inl (InvalidSize n)"
proof -
  let ?vs = "strings_Split lvalue CHR '',''"
  have ne: "?vs \<noteq> []" by (rule strings_Split_not_Nil)
  have ctx: "Context req' = Some ?vs" using assms(3) by (simp add: tenantRequest_simps)
  have serve: "ServeHTTP d r w req = mux_ServeHTTP d r w req'"
    using assms ServeHTTP_tenant [of d r req w] by simp
  have must: "mustLabelValue (Context req') = Inr ?vs"
    using ctx ne by (simp add: mustLabelValue_def)
  have mk: "\<exists>w' m. createLabelMatcher w1 (Context req') (label r) = Inr (w', m)"
    using createLabelMatcher_total [OF ctx ne] .
  have hs: "\<exists>w'. federate d r w1 req' = Inr w'" "\<exists>w'. query d r w1 req' = Inr w'"
    "\<exists>w'. series d r w1 req' = Inr w'" "\<exists>w'. noop d r w1 req' = Inr w'"
    using handlerOf_total [of Federate req' ?vs d r w1] handlerOf_total [of Query req' ?vs d r w1]
      handlerOf_total [of Series req' ?vs d r w1] handlerOf_total [of Noop req' ?vs d r w1] ctx ne
    by simp_all
  have router: "(\<forall>ms. mux_Handler (Method req) (URL_Path req) \<noteq> Handle Silences ms) \<and>
          (\<forall>ms. mux_Handler (Method req) (URL_Path req) \<noteq> Handle DeleteSilence ms) \<longrightarrow>
            (\<exists>w'. ServeHTTP d r w req = Inr w')"
    using mux_ServeHTTP_total [of req' ?vs d r w] ctx ne serve assms(3)
    by (simp add: tenantRequest_simps)
  have conv: "mustLabelValue None = Inl CantFindValue" "mustLabelValue (Some []) = Inl EmptyValue"
    "createLabelMatcher w1 None l = Inl CantFindValue"
    "createLabelMatcher w1 (Some []) l = Inl EmptyValue"
    "federate d r w1 (req'\<lparr>Context := None\<rparr>) = Inl CantFindValue"
    "federate d r w1 (req'\<lparr>Context := Some []\<rparr>) = Inl EmptyValue"
    by (simp_all add: mustLabelValue_def createLabelMatcher_def federate_def)
  from serve ctx ne must mk hs router conv createLabelMatcher_no_InvalidSize [of w1 ctx l n]
  show ?thesis by blast
qed

theorem tenant_context_never_panics_witness:
  "lvalue_of demo_deps param_routes
     (demo_request ''GET'' ''/federate'' [(''tenant'', [''a,b''])] []) = ''a,b'' \<and>
   ''a,b'' \<noteq> [] \<and>
   mustLabelValue (Context (tenantRequest param_routes
     (demo_request ''GET'' ''/federate'' [(''tenant'', [''a,b''])] []) [''a'', ''b''])) =
     Inr [''a'', ''b''] \<and>
   (\<exists>w'. ServeHTTP demo_deps param_routes demo_world
            (demo_request ''GET'' ''/federate'' [(''tenant'', [''a,b''])] []) = Inr w') \<and>
   federate demo_deps param_routes demo_world
     ((tenantRequest param_routes
        (demo_request ''GET'' ''/federate'' [(''tenant'', [''a,b''])] []) [''a'', ''b''])
      \<lparr>Context := None\<rparr>) = Inl CantFindValue"
proof -
  let ?req = "demo_request ''GET'' ''/federate'' [(''tenant'', [''a,b''])] []"
  have h: "lvalue_of demo_deps param_routes ?req = ''a,b''"
    by (simp add: lvalue_of_def param_routes_def demo_request_def Values_Get_def)
  have n: "''a,b'' \<noteq> []" by simp
  have s: "strings_Split ''a,b'' CHR '','' = [''a'', ''b'']" by simp
  have m: "Method ?req = ''GET''" "URL_Path ?req = ''/federate''"
    by (simp_all add: demo_request_def)
  have t: "(\<forall>ms. mux_Handler (Method ?req) (URL_Path ?req) \<noteq> Handle Silences ms) \<and>
          (\<forall>ms. mux_Handler (Method ?req) (URL_Path ?req) \<noteq> Handle DeleteSilence ms)"
    by (simp add: m mux_Handler_federate)
  from tenant_context_never_panics [OF h n refl, of demo_world demo_world "''tenant''" None 0] t
  have "mustLabelValue (Context (tenantRequest param_routes ?req (strings_Split ''a,b'' CHR '',''))) =
          Inr (strings_Split ''a,b'' CHR '','') \<and>
        (\<exists>w'. ServeHTTP demo_deps param_routes demo_world ?req = Inr w') \<and>
        federate demo_deps param_routes demo_world
          ((tenantRequest param_routes ?req (strings_Split ''a,b'' CHR '',''))\<lparr>Context := None\<rparr>) =
          Inl CantFindValue"
    by blast
  with h n show ?thesis unfolding s by blast
qed

section \<open>The federate and series endpoints\<close>






section \<open>Failures of the query endpoints\<close>

lemma query_failure:
  assumes "(\<exists>err. ParseExpr d (FormValue req ''query'') = Inl err) \<or>
           (\<exists>expr w1 m err. ParseExpr d (FormValue req ''query'') = Inr expr \<and>
              createLabelMatcher w (Context req) (label r) = Inr (w1, m) \<and>
              EnforceNode d [m] expr = Inl err)"
  shows "\<exists>w'. query d r w req = Inr w' \<and> upstream w' = upstream w \<and> written w' = written w"
  using assms
proof
  assume "\<exists>err. ParseExpr d (FormValue req ''query'') = Inl err"
  then show ?thesis by (auto simp: query_def)
next
  assume "\<exists>expr w1 m err. ParseExpr d (FormValue req ''query'') = Inr expr \<and>
              createLabelMatcher w (Context req) (label r) = Inr (w1, m) \<and>
              EnforceNode d [m] expr = Inl err"
  then obtain expr w1 m err where
    "ParseExpr d (FormValue req ''query'') = Inr expr"
    "createLabelMatcher w (Context req) (label r) = Inr (w1, m)"
    "EnforceNode d [m] expr = Inl err"
    by blast
  then show ?thesis
    using createLabelMatcher_frame [of w "Context req" "label r" w1 m] by (simp add: query_def)
qed

text \<open>
  Claim C1, as the code has it. A request to \<open>/api/v1/query\<close> or \<open>/api/v1/query_range\<close>
  whose \<open>query\<close> value does not parse, or on which enforcement fails, is never forwarded
  upstream. It is answered 400 when the tenant value is missing and 404 when its method is
  neither GET nor POST. Otherwise the handler returns without writing a reply: the reply is
  as it was before the handler ran, and the client of a handler that wrote nothing receives
  the status 200, not an error status.
\<close>

theorem query_failure_forwards_nothing:
  assumes "URL_Path req = ''/api/v1/query'' \<or> URL_Path req = ''/api/v1/query_range''"
    and "req' = tenantRequest r req (strings_Split (lvalue_of d r req) CHR '','')"
    and "(\<exists>err. ParseExpr d (FormValue req' ''query'') = Inl err) \<or>
         (\<exists>expr w1 m err. ParseExpr d (FormValue req' ''query'') = Inr expr \<and>
            createLabelMatcher w (Context req') (label r) = Inr (w1, m) \<and>
            EnforceNode d [m] expr = Inl err)"
  shows "\<exists>w'. ServeHTTP d r w req = Inr w' \<and> upstream w' = upstream w \<and>
           (if lvalue_of d r req = [] then statusCode (written w') = 400
            else if Method req = ''GET'' \<or> Method req = ''POST'' then written w' = written w
            else statusCode (written w') = 404)"
proof (cases "lvalue_of d r req = []")
  case True
  then show ?thesis by (simp add: ServeHTTP_def http_Error_def)
next
  case False
  have route: "mux_Handler (Method req') (URL_Path req') = Handle Query [''GET'', ''POST'']"
    using assms(1,2) by (auto simp: tenantRequest_simps mux_Handler_query mux_Handler_query_range)
  have m: "Method req' = Method req" using assms(2) by (simp add: tenantRequest_simps)
  have serve: "ServeHTTP d r w req = mux_ServeHTTP d r w req'"
    using False assms(2) by (simp add: ServeHTTP_tenant)
  show ?thesis
  proof (cases "Method req = ''GET'' \<or> Method req = ''POST''")
    case True
    with route m have "mux_ServeHTTP d r w req' = query d r w req'"
      by (auto simp: mux_ServeHTTP_Handle)
    with serve query_failure [OF assms(3)] False True show ?thesis by auto
  next
    case nomethod: False
    with route m have "mux_ServeHTTP d r w req' = Inr (http_NotFound w)"
      by (auto simp: mux_ServeHTTP_Handle)
    with serve False nomethod show ?thesis
      by (simp add: http_NotFound_def http_Error_def)
  qed
qed

theorem query_failure_forwards_nothing_witness:
  "URL_Path (demo_request ''GET'' ''/api/v1/query'' [(''tenant'', [''a'']), (''query'', [conflicting_query])] []) =
     ''/api/v1/query'' \<and>
   ParseExpr demo_deps (FormValue (tenantRequest param_routes
       (demo_request ''GET'' ''/api/v1/query'' [(''tenant'', [''a'']), (''query'', [conflicting_query])] [])
       [''a'']) ''query'') = Inr conflicting_query \<and>
   EnforceNode demo_deps [\<lparr>Name = ''tenant'', Type = MatchEqual, Value = ''a''\<rparr>] conflicting_query =
     Inl ''conflicting matcher'' \<and>
   (\<exists>w'. ServeHTTP demo_deps param_routes demo_world
            (demo_request ''GET'' ''/api/v1/query'' [(''tenant'', [''a'']), (''query'', [conflicting_query])] []) =
          Inr w' \<and> upstream w' = [] \<and> written w' = None)"
proof -
  let ?req = "demo_request ''GET'' ''/api/v1/query'' [(''tenant'', [''a'']), (''query'', [conflicting_query])] []"
  let ?m = "\<lparr>Name = ''tenant'', Type = MatchEqual, Value = ''a''\<rparr>"
  have p: "URL_Path ?req = ''/api/v1/query'' \<or> URL_Path ?req = ''/api/v1/query_range''"
    and p': "URL_Path ?req = ''/api/v1/query''" and m: "Method ?req = ''GET''"
    by (simp_all add: demo_request_def)
  have h: "lvalue_of demo_deps param_routes ?req = ''a''"
    by (simp add: lvalue_of_def param_routes_def demo_request_def Values_Get_def)
  have s: "strings_Split ''a'' CHR '','' = [''a'']" by simp
  have fv: "FormValue (tenantRequest param_routes ?req [''a'']) ''query'' = conflicting_query"
    by (simp add: FormValue_def Form_def copyValues_def Values_Get_def tenantRequest_simps
        demo_request_def Values_Encode_def Values_Del_def param_routes_def)
  have pe: "ParseExpr demo_deps conflicting_query = Inr conflicting_query"
    by (simp add: demo_deps_def conflicting_query_def demo_quote_def)
  have cm: "createLabelMatcher demo_world (Context (tenantRequest param_routes ?req [''a'']))
              (label param_routes) =
            Inr (Println demo_world (''label '' @ label param_routes @ '' should be: '' @
                   strings_Join [''a''] '',''), ?m)"
    by (simp add: tenantRequest_simps createLabelMatcher_Some param_routes_def)
  have en: "EnforceNode demo_deps [?m] conflicting_query = Inl ''conflicting matcher''"
    by (simp add: demo_deps_def demo_enforce_def conflicting_query_def)
  have fail: "(\<exists>err. ParseExpr demo_deps
                  (FormValue (tenantRequest param_routes ?req
                     (strings_Split (lvalue_of demo_deps param_routes ?req) CHR '','')) ''query'') = Inl err) \<or>
         (\<exists>expr w1 m err. ParseExpr demo_deps
                  (FormValue (tenantRequest param_routes ?req
                     (strings_Split (lvalue_of demo_deps param_routes ?req) CHR '','')) ''query'') = Inr expr \<and>
            createLabelMatcher demo_world
              (Context (tenantRequest param_routes ?req
                 (strings_Split (lvalue_of demo_deps param_routes ?req) CHR '','')))
              (label param_routes) = Inr (w1, m) \<and>
            EnforceNode demo_deps [m] expr = Inl err)"
    unfolding h s fv using pe cm en by blast
  have w0: "upstream demo_world = []" "written demo_world = None"
    by (simp_all add: demo_world_def)
  from query_failure_forwards_nothing [OF p refl fail] h m w0
  have "\<exists>w'. ServeHTTP demo_deps param_routes demo_world ?req = Inr w' \<and>
          upstream w' = [] \<and> written w' = None"
    by auto
  with p' fv pe en show ?thesis by simp
qed

text \<open>
  The claim as the specification states it fails: a request whose \<open>query\<close> value does not
  parse, and one on which enforcement fails, both with a tenant value and the method GET,
  are served without any reply written, which the client receives as status 200.
\<close>

theorem query_failure_status_counterexample:
  "ParseExpr demo_deps (FormValue (tenantRequest param_routes
       (demo_request ''GET'' ''/api/v1/query'' [(''tenant'', [''a'']), (''query'', [''up(''])] [])
       [''a'']) ''query'') = Inl ''parse error'' \<and>
   ServeHTTP demo_deps param_routes demo_world
     (demo_request ''GET'' ''/api/v1/query'' [(''tenant'', [''a'']), (''query'', [''up(''])] []) =
     Inr demo_world \<and>
   ServeHTTP demo_deps param_routes demo_world
     (demo_request ''GET'' ''/api/v1/query_range'' [(''tenant'', [''a'']), (''query'', [conflicting_query])] []) =
     Inr (Println demo_world ''label tenant should be: a'') \<and>
   written demo_world = None \<and>
   written (Println demo_world ''label tenant should be: a'') = None \<and>
   statusCode None = 200 \<and>
   \<not> (400 \<le> statusCode None \<and> statusCode None < 500)"
proof -
  let ?bad = "demo_request ''GET'' ''/api/v1/query'' [(''tenant'', [''a'']), (''query'', [''up(''])] []"
  let ?conflict = "demo_request ''GET'' ''/api/v1/query_range'' [(''tenant'', [''a'']), (''query'', [conflicting_query])] []"
  have h: "lvalue_of demo_deps param_routes ?bad = ''a''"
    "lvalue_of demo_deps param_routes ?conflict = ''a''"
    by (simp_all add: lvalue_of_def param_routes_def demo_request_def Values_Get_def)
  have fv: "FormValue (tenantRequest param_routes ?bad [''a'']) ''query'' = ''up(''"
    "FormValue (tenantRequest param_routes ?conflict [''a'']) ''query'' = conflicting_query"
    by (simp_all add: FormValue_def Form_def copyValues_def Values_Get_def tenantRequest_simps
        demo_request_def Values_Encode_def Values_Del_def param_routes_def)
  have pe: "ParseExpr demo_deps ''up('' = Inl ''parse error''"
    "ParseExpr demo_deps conflicting_query = Inr conflicting_query"
    by (simp_all add: demo_deps_def conflicting_query_def demo_quote_def)
  have en: "EnforceNode demo_deps [\<lparr>Name = ''tenant'', Type = MatchEqual, Value = ''a''\<rparr>] conflicting_query =
              Inl ''conflicting matcher''"
    by (simp add: demo_deps_def demo_enforce_def conflicting_query_def)
  have rt: "Method (tenantRequest param_routes ?bad [''a'']) = ''GET''"
    "URL_Path (tenantRequest param_routes ?bad [''a'']) = ''/api/v1/query''"
    "Method (tenantRequest param_routes ?conflict [''a'']) = ''GET''"
    "URL_Path (tenantRequest param_routes ?conflict [''a'']) = ''/api/v1/query_range''"
    by (simp_all add: tenantRequest_simps demo_request_def)
  have l: "label param_routes = ''tenant''" by (simp add: param_routes_def)
  have ctx: "Context (tenantRequest param_routes ?conflict [''a'']) = Some [''a'']"
    by (simp add: tenantRequest_simps)
  have a: "ServeHTTP demo_deps param_routes demo_world ?bad = Inr demo_world"
    using h(1) by (simp add: ServeHTTP_tenant mux_ServeHTTP_def rt mux_Handler_query query_def fv pe)
  have b: "ServeHTTP demo_deps param_routes demo_world ?conflict =
             Inr (Println demo_world ''label tenant should be: a'')"
    using h(2)
    by (simp add: ServeHTTP_tenant mux_ServeHTTP_def rt mux_Handler_query_range query_def fv pe
        ctx createLabelMatcher_Some l en)
  have c: "written demo_world = None" "written (Println demo_world ''label tenant should be: a'') = None"
    by (simp_all add: demo_world_def Println_def)
  from a b c fv(1) pe(1) show ?thesis by simp
qed

section \<open>The tenant carrier in the forwarded request\<close>

text \<open>
  Claim C2, as the code has it. For a request with a tenant value, \<open>ServeHTTP\<close> deletes
  the query parameter named by the label before routing, whether the value was read from
  the query string or from a header, and leaves the headers as they are. So a request
  forwarded by \<open>federate\<close>, \<open>query\<close>, \<open>series\<close> or \<open>noop\<close> (the two silence handlers are
  not in this file) has the headers of the inbound request, the tenant header included when
  the label is read from a header, and has no query parameter named by the label, unless
  the label is \<open>query\<close> or \<open>match[]\<close>, which these handlers set themselves.
\<close>

theorem label_parameter_deleted_header_kept:
  assumes "lvalue_of d r req = lvalue" and "lvalue \<noteq> []"
    and "req' = tenantRequest r req (strings_Split lvalue CHR '','')"
    and "\<forall>ms. mux_Handler (Method req) (URL_Path req) \<noteq> Handle Silences ms"
    and "\<forall>ms. mux_Handler (Method req) (URL_Path req) \<noteq> Handle DeleteSilence ms"
  shows "ServeHTTP d r w req = mux_ServeHTTP d r w req' \<and>
         URL_Query req' (label r) = None \<and>
         Header req' = Header req \<and>
         (\<exists>w'. ServeHTTP d r w req = Inr w' \<and>
            (upstream w' = upstream w \<or>
             (\<exists>fwd. upstream w' = upstream w @ [fwd] \<and>
                Header fwd = Header req \<and>
                (labelLocation r = ''header'' \<longrightarrow> Header_Get d (Header fwd) (label r) = lvalue) \<and>
                (label r \<noteq> ''query'' \<and> label r \<noteq> ''match[]'' \<longrightarrow> URL_Query fwd (label r) = None))))"
proof -
  let ?vs = "strings_Split lvalue CHR '',''"
  have serve: "ServeHTTP d r w req = mux_ServeHTTP d r w req'"
    using assms(1-3) ServeHTTP_tenant [of d r req w] by simp
  have del: "URL_Query req' (label r) = None"
    using assms(3) by (simp add: tenantRequest_simps Values_Encode_def Values_Del_def)
  have hdr: "Header req' = Header req"
    using assms(3) by (simp add: tenantRequest_simps)
  have get: "labelLocation r = ''header'' \<Longrightarrow> Header_Get d (Header req) (label r) = lvalue"
    using assms(1) by (simp add: lvalue_of_def)
  have ctx: "Context req' = Some ?vs" "Method req' = Method req" "URL_Path req' = URL_Path req"
    using assms(3) by (simp_all add: tenantRequest_simps)
  have ne: "?vs \<noteq> []" by (rule strings_Split_not_Nil)
  have "\<exists>w'. mux_ServeHTTP d r w req' = Inr w' \<and>
          (upstream w' = upstream w \<or> forwards w req' w')"
  proof (cases "mux_Handler (Method req) (URL_Path req)")
    case (Handle ep ms)
    with assms(4,5) have ep: "ep \<noteq> Silences" "ep \<noteq> DeleteSilence" by auto
    show ?thesis
    proof (cases "Method req \<in> set ms")
      case True
      from handlerOf_total [OF ep ctx(1) ne, of d r w] obtain w' where
        w': "handlerOf d r ep w req' = Inr w'" by blast
      from handlerOf_forwards [OF ep w'] w' Handle True ctx show ?thesis
        by (simp add: mux_ServeHTTP_Handle)
    next
      case False
      with Handle ctx show ?thesis
        by (simp add: mux_ServeHTTP_Handle http_NotFound_def http_Error_def)
    qed
  next
    case (RedirectTo u)
    with ctx show ?thesis by (simp add: mux_ServeHTTP_def)
  next
    case NotFoundHandler
    with ctx show ?thesis by (simp add: mux_ServeHTTP_def http_NotFound_def http_Error_def)
  qed
  then obtain w' where w': "mux_ServeHTTP d r w req' = Inr w'"
    and fw: "upstream w' = upstream w \<or> forwards w req' w'" by blast
  have "upstream w' = upstream w \<or>
        (\<exists>fwd. upstream w' = upstream w @ [fwd] \<and> Header fwd = Header req \<and>
           (labelLocation r = ''header'' \<longrightarrow> Header_Get d (Header fwd) (label r) = lvalue) \<and>
           (label r \<noteq> ''query'' \<and> label r \<noteq> ''match[]'' \<longrightarrow> URL_Query fwd (label r) = None))"
  proof (cases "upstream w' = upstream w")
    case True
    then show ?thesis by simp
  next
    case False
    with fw obtain q' where
      up: "upstream w' = upstream w @ [req'\<lparr>URL_Query := q'\<rparr>]"
      and keep: "\<forall>k. k \<noteq> ''query'' \<and> k \<noteq> ''match[]'' \<and> URL_Query req' k = None \<longrightarrow> q' k = None"
      unfolding forwards_def by blast
    have "Header (req'\<lparr>URL_Query := q'\<rparr>) = Header req" using hdr by simp
    moreover have "labelLocation r = ''header'' \<longrightarrow>
        Header_Get d (Header (req'\<lparr>URL_Query := q'\<rparr>)) (label r) = lvalue"
      using hdr get by simp
    moreover have "label r \<noteq> ''query'' \<and> label r \<noteq> ''match[]'' \<longrightarrow>
        URL_Query (req'\<lparr>URL_Query := q'\<rparr>) (label r) = None"
      using keep del by simp
    ultimately show ?thesis using up by blast
  qed
  with serve w' del hdr show ?thesis by simp
qed

theorem label_parameter_deleted_header_kept_witness:
  "lvalue_of demo_deps param_routes
     (demo_request ''GET'' ''/api/v1/labels'' [(''tenant'', [''a'']), (''start'', [''0''])] []) = ''a'' \<and>
   URL_Query (tenantRequest param_routes
     (demo_request ''GET'' ''/api/v1/labels'' [(''tenant'', [''a'']), (''start'', [''0''])] [])
     [''a'']) ''tenant'' = None \<and>
   (\<exists>w'. ServeHTTP demo_deps param_routes demo_world
            (demo_request ''GET'' ''/api/v1/labels'' [(''tenant'', [''a'']), (''start'', [''0''])] []) =
          Inr w' \<and>
          (upstream w' = [] \<or>
           (\<exists>fwd. upstream w' = [fwd] \<and> URL_Query fwd ''tenant'' = None)))"
proof -
  let ?req = "demo_request ''GET'' ''/api/v1/labels'' [(''tenant'', [''a'']), (''start'', [''0''])] []"
  have h: "lvalue_of demo_deps param_routes ?req = ''a''"
    by (simp add: lvalue_of_def param_routes_def demo_request_def Values_Get_def)
  have n: "''a'' \<noteq> []" by simp
  have s: "strings_Split ''a'' CHR '','' = [''a'']" by simp
  have m: "Method ?req = ''GET''" "URL_Path ?req = ''/api/v1/labels''"
    by (simp_all add: demo_request_def)
  have t1: "\<forall>ms. mux_Handler (Method ?req) (URL_Path ?req) \<noteq> Handle Silences ms"
    and t2: "\<forall>ms. mux_Handler (Method ?req) (URL_Path ?req) \<noteq> Handle DeleteSilence ms"
    by (simp_all add: m mux_Handler_labels)
  have l: "label param_routes = ''tenant''" "upstream demo_world = []"
    by (simp_all add: param_routes_def demo_world_def)
  from label_parameter_deleted_header_kept [OF h n refl t1 t2, of demo_world]
  have "URL_Query (tenantRequest param_routes ?req (strings_Split ''a'' CHR '','')) (label param_routes) = None \<and>
        (\<exists>w'. ServeHTTP demo_deps param_routes demo_world ?req = Inr w' \<and>
           (upstream w' = upstream demo_world \<or>
            (\<exists>fwd. upstream w' = upstream demo_world @ [fwd] \<and>
               (label param_routes \<noteq> ''query'' \<and> label param_routes \<noteq> ''match[]'' \<longrightarrow>
                  URL_Query fwd (label param_routes) = None))))"
    by blast
  then show ?thesis unfolding s l using h by simp
qed

text \<open>
  The claim as the specification states it fails where the label is read from a header:
  the request \<open>GET /api/v1/labels\<close> with the header \<open>Tenant: a\<close> is forwarded upstream
  with that header.
\<close>

theorem header_not_stripped_counterexample:
  "labelLocation header_routes = ''header'' \<and>
   lvalue_of demo_deps header_routes
     (demo_request ''GET'' ''/api/v1/labels'' [] [(''Tenant'', [''a''])]) = ''a'' \<and>
   ServeHTTP demo_deps header_routes demo_world
     (demo_request ''GET'' ''/api/v1/labels'' [] [(''Tenant'', [''a''])]) =
     Inr (handler_ServeHTTP demo_deps demo_world
           (tenantRequest header_routes
              (demo_request ''GET'' ''/api/v1/labels'' [] [(''Tenant'', [''a''])]) [''a''])) \<and>
   upstream (handler_ServeHTTP demo_deps demo_world
           (tenantRequest header_routes
              (demo_request ''GET'' ''/api/v1/labels'' [] [(''Tenant'', [''a''])]) [''a''])) =
     [tenantRequest header_routes
        (demo_request ''GET'' ''/api/v1/labels'' [] [(''Tenant'', [''a''])]) [''a'']] \<and>
   Header (tenantRequest header_routes
        (demo_request ''GET'' ''/api/v1/labels'' [] [(''Tenant'', [''a''])]) [''a'']) ''Tenant'' =
     Some [''a''] \<and>
   Header_Get demo_deps
     (Header (tenantRequest header_routes
        (demo_request ''GET'' ''/api/v1/labels'' [] [(''Tenant'', [''a''])]) [''a'']))
     (label header_routes) = ''a''"
proof -
  let ?req = "demo_request ''GET'' ''/api/v1/labels'' [] [(''Tenant'', [''a''])]"
  have loc: "labelLocation header_routes = ''header''" by (simp add: header_routes_def)
  have h: "lvalue_of demo_deps header_routes ?req = ''a''"
    by (simp add: lvalue_of_def header_routes_def demo_request_def Header_Get_def Values_Get_def
        demo_deps_def)
  have rt: "Method (tenantRequest header_routes ?req [''a'']) = ''GET''"
    "URL_Path (tenantRequest header_routes ?req [''a'']) = ''/api/v1/labels''"
    by (simp_all add: tenantRequest_simps demo_request_def)
  have serve: "ServeHTTP demo_deps header_routes demo_world ?req =
      Inr (handler_ServeHTTP demo_deps demo_world (tenantRequest header_routes ?req [''a'']))"
    using h by (simp add: ServeHTTP_tenant mux_ServeHTTP_def rt mux_Handler_labels noop_def)
  have up: "upstream (handler_ServeHTTP demo_deps demo_world (tenantRequest header_routes ?req [''a''])) =
      [tenantRequest header_routes ?req [''a'']]"
    by (simp add: handler_ServeHTTP_def demo_world_def)
  have hd: "Header (tenantRequest header_routes ?req [''a'']) ''Tenant'' = Some [''a'']"
    by (simp add: tenantRequest_simps demo_request_def)
  have get: "Header_Get demo_deps (Header (tenantRequest header_routes ?req [''a'']))
      (label header_routes) = ''a''"
    by (simp add: tenantRequest_simps demo_request_def Header_Get_def Values_Get_def
        demo_deps_def header_routes_def)
  from loc h serve up hd get show ?thesis by simp
qed

end
